theory Spec2Isabelle
  imports Complex_Main "HOL-Library.Code_Target_Numeral"
begin

section \<open>Python values, exceptions and the float builtins\<close>

text \<open>
  The module \<^verbatim>\<open>skimage/viewer/widgets/core.py\<close> defines three classes, \<^verbatim>\<open>BaseWidget\<close>,
  \<^verbatim>\<open>Slider\<close> and \<^verbatim>\<open>ComboBox\<close>, on top of the PyQt4 toolkit. The embedding keeps
  the objects as records, every method as a function on the record (the new object is
  returned), every \<^verbatim>\<open>raise\<close> as the left summand of a result, and the calls of the host's
  callback as a trace kept in the widget (oldest call first).

  Python floats are taken as exact real numbers: rounding of IEEE doubles, infinities
  and NaN are outside the model.
\<close>

text \<open>Numbers, and the values a callback can receive.\<close>

datatype pynum = PyInt int | PyFloat real

datatype pyval = Num pynum | Str string

datatype error =
    ValueError string
  | ZeroDivisionError
  | AttributeError string
  | NotImplementedError string

text \<open>
  \<^verbatim>\<open>fmt % arg\<close> for a format with one \<^verbatim>\<open>%s\<close> and a string argument: the argument
  takes the place of the directive.
\<close>

fun py_format :: "string \<Rightarrow> string \<Rightarrow> string" where
  "py_format [] arg = []"
| "py_format [c] arg = [c]"
| "py_format (c # d # cs) arg =
     (if c = CHR ''%'' \<and> d = CHR ''s'' then arg @ cs else c # py_format (d # cs) arg)"

text \<open>
  The three builtins the module applies to floats and strings. They are parameters of the
  model, so that every statement below holds for whatever Python computes:
  \<^item> \<open>float_of t\<close> is \<^verbatim>\<open>float(t)\<close>, with \<open>None\<close> for the \<^verbatim>\<open>ValueError\<close> of a text that is
    not a number (a text read as NaN or an infinity compares as out of every finite range,
    which is the branch \<open>None\<close> takes as well);
  \<^item> \<open>str_of x\<close> is \<^verbatim>\<open>str(x)\<close>;
  \<^item> \<open>fmt_2_2f x\<close> is \<^verbatim>\<open>'%2.2f' % x\<close>.
\<close>

record pyrt =
  float_of :: "string \<Rightarrow> real option"
  str_of :: "real \<Rightarrow> string"
  fmt_2_2f :: "real \<Rightarrow> string"


section \<open>The toolkit objects the widgets are made of\<close>

datatype qt_orientation = Vertical | Horizontal

datatype qt_alignment = AlignHCenter | AlignVCenter | AlignLeft | AlignRight

datatype qt_layout = QVBoxLayout | QHBoxLayout

text \<open>\<^verbatim>\<open>QSlider\<close>: an integer position kept between a minimum and a maximum.\<close>

record qslider =
  q_orientation :: qt_orientation
  q_minimum :: int
  q_maximum :: int
  q_value :: int

definition qBound :: "int \<Rightarrow> int \<Rightarrow> int \<Rightarrow> int" where
  "qBound mn v mx = max mn (min mx v)"

definition QSlider_new :: "qt_orientation \<Rightarrow> qslider" where
  "QSlider_new ori = \<lparr>q_orientation = ori, q_minimum = 0, q_maximum = 99, q_value = 0\<rparr>"

definition QSlider_setRange :: "int \<Rightarrow> int \<Rightarrow> qslider \<Rightarrow> qslider" where
  "QSlider_setRange mn mx q =
     q\<lparr>q_minimum := mn, q_maximum := max mn mx,
       q_value := qBound mn (q_value q) (max mn mx)\<rparr>"

text \<open>
  \<^verbatim>\<open>setValue\<close> forces the position into the range and emits \<^verbatim>\<open>valueChanged\<close> only when
  the position changes; the second component tells whether it was emitted.
\<close>

definition QSlider_setValue :: "int \<Rightarrow> qslider \<Rightarrow> qslider \<times> bool" where
  "QSlider_setValue v q =
     (let v' = qBound (q_minimum q) v (q_maximum q)
      in if v' = q_value q then (q, False) else (q\<lparr>q_value := v'\<rparr>, True))"

text \<open>
  A Python number passed where the toolkit expects a C \<^verbatim>\<open>int\<close>: PyQt4 converts it with
  \<^verbatim>\<open>__int__\<close>, which truncates a float towards zero.
\<close>

definition trunc :: "real \<Rightarrow> int" where
  "trunc x = (if 0 \<le> x then \<lfloor>x\<rfloor> else \<lceil>x\<rceil>)"

fun sip_int :: "pynum \<Rightarrow> int" where
  "sip_int (PyInt n) = n"
| "sip_int (PyFloat x) = trunc x"

record qlabel =
  lb_text :: string
  lb_alignment :: qt_alignment

record qlineedit =
  le_text :: string
  le_maximumWidth :: int
  le_alignment :: qt_alignment
  le_styleSheet :: string

text \<open>
  \<^verbatim>\<open>QComboBox\<close>: the choices in order and the index of the current one, \<open>-1\<close> while there
  is none.
\<close>

record qcombobox =
  cb_items :: "string list"
  cb_currentIndex :: int

definition QComboBox_new :: qcombobox where
  "QComboBox_new = \<lparr>cb_items = [], cb_currentIndex = - 1\<rparr>"

text \<open>Adding items to an empty box makes the first one current.\<close>

definition QComboBox_addItems :: "string list \<Rightarrow> qcombobox \<Rightarrow> qcombobox" where
  "QComboBox_addItems items cb =
     cb\<lparr>cb_items := cb_items cb @ items,
        cb_currentIndex := (if cb_items cb = [] \<and> items \<noteq> [] then 0 else cb_currentIndex cb)\<rparr>"

text \<open>
  The user picks the entry at index \<open>k\<close>. The box emits \<^verbatim>\<open>currentIndexChanged\<close> only when
  the index changes; the second component tells whether it was emitted.
\<close>

definition QComboBox_select :: "int \<Rightarrow> qcombobox \<Rightarrow> qcombobox \<times> bool" where
  "QComboBox_select k cb =
     (if 0 \<le> k \<and> k < int (length (cb_items cb)) \<and> k \<noteq> cb_currentIndex cb
      then (cb\<lparr>cb_currentIndex := k\<rparr>, True) else (cb, False))"

text \<open>
  A call without arguments of an attribute of the box, as Python resolves it. The class
  has the queries of the selection listed here (and inherited members that the widgets do
  not use); it has no attribute \<^verbatim>\<open>value\<close>, and looking up a name that the class does not
  have raises \<^verbatim>\<open>AttributeError\<close>.
\<close>

definition QComboBox_call :: "string \<Rightarrow> qcombobox \<Rightarrow> error + pyval" where
  "QComboBox_call attr cb =
     (if attr = ''count'' then Inr (Num (PyInt (int (length (cb_items cb)))))
      else if attr = ''currentIndex'' then Inr (Num (PyInt (cb_currentIndex cb)))
      else if attr = ''currentText'' then
        Inr (Str (if 0 \<le> cb_currentIndex cb \<and> cb_currentIndex cb < int (length (cb_items cb))
                  then cb_items cb ! nat (cb_currentIndex cb) else []))
      else Inl (AttributeError attr))"


section \<open>BaseWidget\<close>

text \<open>
  \<open>calls\<close> is the trace of the callback: \<^verbatim>\<open>self.callback(n, v)\<close> appends \<open>(n, v)\<close>.
  The callback is a function of the host; a widget whose callback is left at \<^verbatim>\<open>None\<close> is
  not modelled.
\<close>

record BaseWidget =
  name :: string
  ptype :: string
  calls :: "(string \<times> pyval) list"

definition BaseWidget_init :: "string \<Rightarrow> string \<Rightarrow> BaseWidget" where
  "BaseWidget_init nm pt = \<lparr>name = nm, ptype = pt, calls = []\<rparr>"

definition BaseWidget_val :: "'a BaseWidget_scheme \<Rightarrow> error + pyval" where
  "BaseWidget_val w = Inl (NotImplementedError ''Subclass of BaseWidget requires `val` property'')"

definition BaseWidget_value_changed :: "pyval \<Rightarrow> 'a BaseWidget_scheme \<Rightarrow> 'a BaseWidget_scheme" where
  "BaseWidget_value_changed v w = w\<lparr>calls := calls w @ [(name w, v)]\<rparr>"


section \<open>Slider\<close>

text \<open>
  The fields \<^verbatim>\<open>_scale\<close>, \<^verbatim>\<open>_low\<close>, \<^verbatim>\<open>_high\<close> are \<open>priv_scale\<close>, \<open>priv_low\<close>, \<open>priv_high\<close>.
  The three booleans record which signals \<^verbatim>\<open>__init__\<close> connected: \<^verbatim>\<open>valueChanged\<close> or
  \<^verbatim>\<open>sliderReleased\<close> of the slider to \<^verbatim>\<open>_on_slider_changed\<close>, and \<^verbatim>\<open>editingFinished\<close> of the
  text box to \<^verbatim>\<open>_on_editbox_changed\<close>.
\<close>

record Slider = BaseWidget +
  priv_scale :: real
  priv_low :: real
  priv_high :: real
  layout :: qt_layout
  layout_widgets :: "(string \<times> qt_alignment) list"
  slider :: qslider
  name_label :: qlabel
  editbox :: qlineedit
  valueChanged_connected :: bool
  sliderReleased_connected :: bool
  editingFinished_connected :: bool

definition Slider_val :: "Slider \<Rightarrow> real" where
  "Slider_val s = real_of_int (q_value (slider s)) * priv_scale s + priv_low s"

definition Slider_good_editbox_input :: "Slider \<Rightarrow> Slider" where
  "Slider_good_editbox_input s =
     s\<lparr>editbox := (editbox s)\<lparr>le_styleSheet := ''background-color: rgb(255, 255, 255)''\<rparr>\<rparr>"

definition Slider_bad_editbox_input :: "Slider \<Rightarrow> Slider" where
  "Slider_bad_editbox_input s =
     s\<lparr>editbox := (editbox s)\<lparr>le_styleSheet := ''background-color: rgb(255, 200, 200)''\<rparr>\<rparr>"

definition Slider_on_slider_changed :: "pyrt \<Rightarrow> Slider \<Rightarrow> Slider" where
  "Slider_on_slider_changed rt s =
     (let v = Slider_val s;
          s1 = s\<lparr>editbox := (editbox s)\<lparr>le_text := take 4 (str_of rt v)\<rparr>\<rparr>
      in s1\<lparr>calls := calls s1 @ [(name s1, Num (PyFloat v))]\<rparr>)"

text \<open>
  \<^verbatim>\<open>self.slider.setValue(n)\<close> with the slots that run inside the call: the slot of
  \<^verbatim>\<open>valueChanged\<close>, when the signal is emitted and connected.
\<close>

definition Slider_slider_setValue :: "pyrt \<Rightarrow> int \<Rightarrow> Slider \<Rightarrow> Slider" where
  "Slider_slider_setValue rt n s =
     (case QSlider_setValue n (slider s) of
        (q, emitted) \<Rightarrow>
          (let s1 = s\<lparr>slider := q\<rparr>
           in if emitted \<and> valueChanged_connected s1 then Slider_on_slider_changed rt s1 else s1))"

definition Slider_on_editbox_changed :: "pyrt \<Rightarrow> Slider \<Rightarrow> error + Slider" where
  "Slider_on_editbox_changed rt s =
     (case float_of rt (le_text (editbox s)) of
        None \<Rightarrow> Inr (Slider_bad_editbox_input s)
      | Some v \<Rightarrow>
          if \<not> (priv_low s \<le> v \<and> v \<le> priv_high s) then Inr (Slider_bad_editbox_input s)
          else if priv_scale s = 0 then Inl ZeroDivisionError
          else (let slider_value = (v - priv_low s) / priv_scale s
                in Inr (Slider_good_editbox_input
                          (Slider_slider_setValue rt (sip_int (PyFloat slider_value)) s))))"

text \<open>
  \<^verbatim>\<open>__init__\<close>, in the order of the source: the scale, the check of the orientation, the
  position control with its range and its first position (set before any signal is
  connected, so no slot runs), the check of the update trigger, the label, the text box
  filled with \<^verbatim>\<open>'%2.2f' % self.val\<close> (\<open>v\<close> below is that \<^verbatim>\<open>val\<close>), and the layout. A \<^verbatim>\<open>raise\<close>
  abandons the object.
\<close>

definition Slider_init ::
  "pyrt \<Rightarrow> string \<Rightarrow> real \<Rightarrow> real \<Rightarrow> pynum option \<Rightarrow> string \<Rightarrow> int \<Rightarrow> string \<Rightarrow> string
     \<Rightarrow> error + Slider" where
  "Slider_init rt nm lo hi val0 pt max_edit_width orientation update_on =
     (let base = BaseWidget_init nm pt;
          slider_min = 0;
          slider_max = 1000;
          val1 = (case val0 of None \<Rightarrow> PyInt 500 | Some v \<Rightarrow> v);
          sc = (hi - lo) / real_of_int slider_max
      in if orientation \<noteq> ''vertical'' \<and> orientation \<noteq> ''horizontal''
         then Inl (ValueError (py_format (''Unexpected value %s for 'orientation'' @ [CHR 0x27])
                                 orientation))
         else
          (let vert = (orientation = ''vertical'');
               orientation_slider = (if vert then Vertical else Horizontal);
               alignment = (if vert then AlignHCenter else AlignVCenter);
               align_text = (if vert then AlignHCenter else AlignLeft);
               align_value = (if vert then AlignHCenter else AlignRight);
               lay = (if vert then QVBoxLayout else QHBoxLayout);
               q0 = QSlider_setRange slider_min slider_max (QSlider_new orientation_slider)
           in (let q1 = fst (QSlider_setValue (sip_int val1) q0)
                  in if update_on \<noteq> ''move'' \<and> update_on \<noteq> ''release''
                     then Inl (ValueError
                            (py_format (''Unexpected value %s for 'update_on'' @ [CHR 0x27]) update_on))
                     else
                      (let v = real_of_int (q_value q1) * sc + lo
                       in Inr (BaseWidget.extend base
                            (Slider.fields sc lo hi lay
                               [(''name_label'', align_text), (''slider'', alignment),
                                (''editbox'', align_value)]
                               q1
                               \<lparr>lb_text = nm, lb_alignment = align_text\<rparr>
                               \<lparr>le_text = fmt_2_2f rt v, le_maximumWidth = max_edit_width,
                                 le_alignment = align_value, le_styleSheet = []\<rparr>
                               (update_on = ''move'') (update_on = ''release'') True))))))"


text \<open>
  What the user does to a slider. \<open>Move k\<close>: the handle is taken to position \<open>k\<close>
  (the toolkit sets the position, as \<^verbatim>\<open>setValue\<close> does). \<open>Release\<close>: the handle is let go,
  the toolkit emits \<^verbatim>\<open>sliderReleased\<close>. \<open>Commit t\<close>: the text box holds \<open>t\<close> and the edit
  is committed, the toolkit emits \<^verbatim>\<open>editingFinished\<close>.
\<close>

datatype slider_event = Move int | Release | Commit string

fun Slider_event :: "pyrt \<Rightarrow> slider_event \<Rightarrow> Slider \<Rightarrow> error + Slider" where
  "Slider_event rt (Move k) s = Inr (Slider_slider_setValue rt k s)"
| "Slider_event rt Release s =
     Inr (if sliderReleased_connected s then Slider_on_slider_changed rt s else s)"
| "Slider_event rt (Commit t) s =
     (let s1 = s\<lparr>editbox := (editbox s)\<lparr>le_text := t\<rparr>\<rparr>
      in if editingFinished_connected s1 then Slider_on_editbox_changed rt s1 else Inr s1)"

fun Slider_run :: "pyrt \<Rightarrow> slider_event list \<Rightarrow> Slider \<Rightarrow> error + Slider" where
  "Slider_run rt [] s = Inr s"
| "Slider_run rt (e # es) s =
     (case Slider_event rt e s of Inl err \<Rightarrow> Inl err | Inr s1 \<Rightarrow> Slider_run rt es s1)"


section \<open>ComboBox\<close>

text \<open>
  \<open>currentIndexChanged_connected\<close> records the connection of the signal
  \<^verbatim>\<open>currentIndexChanged\<close> to \<^verbatim>\<open>_value_changed\<close>. The signal has two overloads,
  \<^verbatim>\<open>currentIndexChanged(int)\<close> and \<^verbatim>\<open>currentIndexChanged(QString)\<close>; the source connects
  it without choosing one, which in PyQt4 is the first, so the slot receives the index.
\<close>

record ComboBox = BaseWidget +
  cb_name_label :: qlabel
  combo_box :: qcombobox
  cb_layout :: qt_layout
  cb_layout_widgets :: "(string \<times> qt_alignment option) list"
  currentIndexChanged_connected :: bool

definition ComboBox_init :: "string \<Rightarrow> string list \<Rightarrow> string \<Rightarrow> ComboBox" where
  "ComboBox_init nm items pt =
     BaseWidget.extend (BaseWidget_init nm pt)
       (ComboBox.fields
          \<lparr>lb_text = nm, lb_alignment = AlignLeft\<rparr>
          (QComboBox_addItems items QComboBox_new)
          QHBoxLayout
          [(''name_label'', None), (''_combo_box'', Some AlignLeft)]
          True)"

definition ComboBox_val :: "ComboBox \<Rightarrow> error + pyval" where
  "ComboBox_val w = QComboBox_call ''value'' (combo_box w)"

text \<open>The user picks the entry at index \<open>k\<close> of the box of the widget.\<close>

definition ComboBox_select :: "int \<Rightarrow> ComboBox \<Rightarrow> ComboBox" where
  "ComboBox_select k w =
     (case QComboBox_select k (combo_box w) of
        (cb, emitted) \<Rightarrow>
          (let w1 = w\<lparr>combo_box := cb\<rparr>
           in if emitted \<and> currentIndexChanged_connected w1
              then BaseWidget_value_changed (Num (PyInt k)) w1 else w1))"


section \<open>A runtime for the examples\<close>

text \<open>
  The statements below hold for every runtime. The examples run on this one, which agrees
  with Python on plain decimal literals (an optional sign, digits, an optional point and
  digits): \<open>decimal_float\<close> reads them, \<open>decimal_fixed d\<close> writes a number with \<open>d\<close>
  decimals, rounded half to even, and \<open>decimal_str\<close> writes it with the decimals it needs,
  at least one and at most twelve.
\<close>

definition digit_of :: "char \<Rightarrow> nat option" where
  "digit_of c =
     (let n = (of_char c :: nat) in if 48 \<le> n \<and> n \<le> 57 then Some (n - 48) else None)"

fun digits_of :: "string \<Rightarrow> nat \<Rightarrow> nat option" where
  "digits_of [] acc = Some acc"
| "digits_of (c # cs) acc =
     (case digit_of c of None \<Rightarrow> None | Some d \<Rightarrow> digits_of cs (10 * acc + d))"

definition decimal_float :: "string \<Rightarrow> real option" where
  "decimal_float t =
     (let neg = (take 1 t = ''-'');
          body = (if take 1 t = ''-'' \<or> take 1 t = ''+'' then drop 1 t else t);
          ip = takeWhile (\<lambda>c. c \<noteq> CHR ''.'') body;
          fp = drop 1 (dropWhile (\<lambda>c. c \<noteq> CHR ''.'') body)
      in if ip = [] \<and> fp = [] then None
         else (case digits_of ip 0 of
                 None \<Rightarrow> None
               | Some a \<Rightarrow>
                  (case digits_of fp 0 of
                     None \<Rightarrow> None
                   | Some b \<Rightarrow>
                      (let x = real a + real b / 10 ^ length fp
                       in Some (if neg then - x else x)))))"

fun show_nat :: "nat \<Rightarrow> string" where
  "show_nat n =
     (if n < 10 then [char_of (48 + n)] else show_nat (n div 10) @ [char_of (48 + n mod 10)])"

definition round_half_even :: "real \<Rightarrow> nat" where
  "round_half_even y =
     (let f = nat \<lfloor>y\<rfloor>; r = y - real f
      in if r < 1 / 2 then f else if 1 / 2 < r then f + 1 else if even f then f else f + 1)"

definition decimal_fixed :: "nat \<Rightarrow> real \<Rightarrow> string" where
  "decimal_fixed d x =
     (let n = round_half_even (\<bar>x\<bar> * 10 ^ d);
          fp = show_nat (n mod 10 ^ d)
      in (if x < 0 then ''-'' else []) @ show_nat (n div 10 ^ d) @ ''.''
           @ replicate (d - length fp) (CHR ''0'') @ fp)"

definition decimal_str :: "real \<Rightarrow> string" where
  "decimal_str x =
     (let t = rev (dropWhile (\<lambda>c. c = CHR ''0'') (rev (decimal_fixed 12 x)))
      in if take 1 (rev t) = ''.'' then t @ ''0'' else t)"

definition decimal_rt :: pyrt where
  "decimal_rt = \<lparr>float_of = decimal_float, str_of = decimal_str, fmt_2_2f = decimal_fixed 2\<rparr>"


section \<open>What every slider keeps\<close>

text \<open>
  The facts \<^verbatim>\<open>__init__\<close> establishes and no handler changes: the bounds, the scale, the
  range of the position control, the name and the connections.
\<close>

definition Slider_inv :: "real \<Rightarrow> real \<Rightarrow> string \<Rightarrow> string \<Rightarrow> Slider \<Rightarrow> bool" where
  "Slider_inv lo hi nm update_on s \<longleftrightarrow>
     priv_low s = lo \<and> priv_high s = hi \<and> priv_scale s = (hi - lo) / 1000 \<and>
     q_minimum (slider s) = 0 \<and> q_maximum (slider s) = 1000 \<and>
     0 \<le> q_value (slider s) \<and> q_value (slider s) \<le> 1000 \<and>
     name s = nm \<and>
     valueChanged_connected s = (update_on = ''move'') \<and>
     sliderReleased_connected s = (update_on = ''release'') \<and>
     editingFinished_connected s"


section \<open>The widgets of the examples\<close>

definition sigma_move :: "error + Slider" where
  "sigma_move = Slider_init decimal_rt ''sigma'' 0 10 None ''kwarg'' 60 ''horizontal'' ''move''"

definition sigma_release :: "error + Slider" where
  "sigma_release =
     Slider_init decimal_rt ''sigma'' 0 10 None ''kwarg'' 60 ''horizontal'' ''release''"



definition mode_box :: ComboBox where
  "mode_box = ComboBox_init ''mode'' [''mean'', ''median''] ''kwarg''"


section \<open>ComboBox: reading the value and the payload of the callback\<close>

lemma ComboBox_val_always: "ComboBox_val w = Inl (AttributeError ''value'')"
  by (simp add: ComboBox_val_def QComboBox_call_def)

lemma ComboBox_select_calls:
  assumes "0 < k" and "k < int (length items)"
  shows "calls (ComboBox_select k (ComboBox_init nm items pt)) = [(nm, Num (PyInt k))]"
  using assms
  by (auto simp: ComboBox_select_def ComboBox_init_def QComboBox_select_def QComboBox_addItems_def
      QComboBox_new_def BaseWidget_value_changed_def BaseWidget_init_def BaseWidget.extend_def
      ComboBox.fields_def Let_def)

text \<open>
  C1. Reading \<^verbatim>\<open>val\<close> of a combo box with the items \<^verbatim>\<open>['mean', 'median']\<close> should give
  the selected item, \<^verbatim>\<open>'mean'\<close> right after construction. The property calls
  \<^verbatim>\<open>self._combo_box.value()\<close>, an attribute the box does not have: the read raises
  \<^verbatim>\<open>AttributeError\<close>, while the text of the current entry is \<^verbatim>\<open>'mean'\<close>.
\<close>

theorem ComboBox_val_raises:
  "ComboBox_val mode_box = Inl (AttributeError ''value'') \<and>
   QComboBox_call ''currentText'' (combo_box mode_box) = Inr (Str ''mean'')"
  by (simp add: ComboBox_val_def QComboBox_call_def mode_box_def ComboBox_init_def
      QComboBox_addItems_def QComboBox_new_def BaseWidget.extend_def ComboBox.fields_def)

text \<open>
  C2. Selecting the entry at index 1 of the box \<^verbatim>\<open>['mean', 'median']\<close> should call the
  callback once with \<^verbatim>\<open>('mode', 'median')\<close>. The callback is called once, with the index:
  \<^verbatim>\<open>('mode', 1)\<close>.
\<close>

theorem ComboBox_select_passes_index:
  "calls (ComboBox_select 1 mode_box) = [(''mode'', Num (PyInt 1))] \<and>
   cb_items (combo_box (ComboBox_select 1 mode_box)) ! 1 = ''median''"
  by (simp add: ComboBox_select_def mode_box_def ComboBox_init_def QComboBox_select_def
      QComboBox_addItems_def QComboBox_new_def BaseWidget_value_changed_def BaseWidget_init_def
      BaseWidget.extend_def ComboBox.fields_def Let_def)


section \<open>Slider: the invariant\<close>

lemmas init_simps = Slider_init_def Let_def BaseWidget_init_def BaseWidget.extend_def
  Slider.fields_def QSlider_setValue_def QSlider_setRange_def QSlider_new_def qBound_def


lemma sigma_move_ok: "\<not> isl sigma_move"
  by (simp add: sigma_move_def init_simps)

lemma sigma_release_ok: "\<not> isl sigma_release"
  by (simp add: sigma_release_def init_simps)

lemma sigma_move_start:
  "q_value (slider (projr sigma_move)) = 500" "calls (projr sigma_move) = []"
  by (simp_all add: sigma_move_def init_simps)

text \<open>
  The example of the specification: moving the handle of \<^verbatim>\<open>sigma\<close> to 750 makes \<^verbatim>\<open>val\<close>
  7.5 and calls the callback with \<^verbatim>\<open>('sigma', 7.5)\<close>.
\<close>

lemma sigma_move_750:
  "Slider_val (Slider_slider_setValue decimal_rt 750 (projr sigma_move)) = 7.5"
  "calls (Slider_slider_setValue decimal_rt 750 (projr sigma_move)) = [(''sigma'', Num (PyFloat 7.5))]"
  by (simp_all add: sigma_move_def init_simps Slider_slider_setValue_def Slider_on_slider_changed_def
      Slider_val_def)

lemma Slider_init_inv:
  assumes "Slider_init rt nm lo hi v0 pt w ori upd = Inr s"
  shows "Slider_inv lo hi nm upd s"
proof -
  from assms have ok: "\<not> (ori \<noteq> ''vertical'' \<and> ori \<noteq> ''horizontal'')"
      "\<not> (upd \<noteq> ''move'' \<and> upd \<noteq> ''release'')"
    by (auto simp: Slider_init_def Let_def split: if_splits)
  from assms show ?thesis
    unfolding Slider_init_def Let_def if_not_P[OF ok(1)] if_not_P[OF ok(2)]
    by (auto simp: Slider_inv_def BaseWidget_init_def BaseWidget.extend_def
      Slider.fields_def QSlider_setValue_def QSlider_setRange_def QSlider_new_def qBound_def Let_def)
qed

lemma on_slider_changed_inv:
  "Slider_inv lo hi nm upd s \<Longrightarrow> Slider_inv lo hi nm upd (Slider_on_slider_changed rt s)"
  by (simp add: Slider_inv_def Slider_on_slider_changed_def Let_def)

lemma slider_setValue_inv:
  "Slider_inv lo hi nm upd s \<Longrightarrow> Slider_inv lo hi nm upd (Slider_slider_setValue rt n s)"
  by (auto simp: Slider_inv_def Slider_slider_setValue_def Slider_on_slider_changed_def Let_def
      QSlider_setValue_def qBound_def split: if_splits)

lemma Slider_event_inv:
  assumes "Slider_inv lo hi nm upd s" "Slider_event rt e s = Inr s'"
  shows "Slider_inv lo hi nm upd s'"
proof (cases e)
  case (Move k)
  with assms show ?thesis by (auto simp: slider_setValue_inv)
next
  case Release
  with assms show ?thesis by (auto simp: on_slider_changed_inv)
next
  case (Commit t)
  let ?s1 = "s\<lparr>editbox := (editbox s)\<lparr>le_text := t\<rparr>\<rparr>"
  have i1: "Slider_inv lo hi nm upd ?s1" using assms(1) by (simp add: Slider_inv_def)
  have bad: "Slider_inv lo hi nm upd (Slider_bad_editbox_input ?s1)"
    using i1 by (simp add: Slider_inv_def Slider_bad_editbox_input_def)
  have good: "\<And>n. Slider_inv lo hi nm upd (Slider_good_editbox_input (Slider_slider_setValue rt n ?s1))"
    using slider_setValue_inv[OF i1] by (simp add: Slider_inv_def Slider_good_editbox_input_def)
  from assms(2) Commit i1 have "Slider_on_editbox_changed rt ?s1 = Inr s'"
    by (simp add: Slider_inv_def Let_def)
  then show ?thesis using bad good
    by (auto simp: Slider_on_editbox_changed_def Let_def split: option.splits if_splits)
qed

lemma Slider_run_inv:
  "Slider_inv lo hi nm upd s \<Longrightarrow> Slider_run rt es s = Inr s' \<Longrightarrow> Slider_inv lo hi nm upd s'"
proof (induction es arbitrary: s)
  case Nil then show ?case by simp
next
  case (Cons e es)
  then show ?case by (auto split: sum.splits dest: Slider_event_inv)
qed


lemma Slider_reach_inv:
  "Slider_init rt nm lo hi v0 pt w ori upd = Inr s0 \<Longrightarrow> Slider_run rt es s0 = Inr s
     \<Longrightarrow> Slider_inv lo hi nm upd s"
  by (blast intro: Slider_init_inv Slider_run_inv)

lemma Slider_val_inv:
  "Slider_inv lo hi nm upd s \<Longrightarrow>
     Slider_val s = real_of_int (q_value (slider s)) * (hi - lo) / 1000 + lo"
  by (simp add: Slider_val_def Slider_inv_def)

lemma slider_setValue_step:
  "Slider_inv lo hi nm upd s \<Longrightarrow>
     q_value (slider (Slider_slider_setValue rt k s)) = qBound 0 k 1000"
  by (auto simp: Slider_inv_def Slider_slider_setValue_def Slider_on_slider_changed_def Let_def
      QSlider_setValue_def split: if_splits)


lemma qBound_id: "mn \<le> v \<Longrightarrow> v \<le> mx \<Longrightarrow> qBound mn v mx = v"
  by (simp add: qBound_def)


lemma trunc_step_bounds:
  assumes "lo < hi" "lo \<le> v" "v \<le> hi"
  shows "0 \<le> trunc ((v - lo) / ((hi - lo) / 1000)) \<and> trunc ((v - lo) / ((hi - lo) / 1000)) \<le> 1000"
proof -
  let ?x = "(v - lo) / ((hi - lo) / 1000)"
  have sc: "0 < (hi - lo) / 1000" using assms(1) by simp
  have x0: "0 \<le> ?x" using assms sc by simp
  have "v - lo \<le> 1000 * ((hi - lo) / 1000)" using assms by simp
  then have x1: "?x \<le> 1000" using sc by (simp add: pos_divide_le_eq)
  have "\<lfloor>?x\<rfloor> \<le> 1000" using x1 by (simp add: floor_le_iff)
  moreover have "0 \<le> \<lfloor>?x\<rfloor>" using x0 by simp
  ultimately show ?thesis using x0 by (simp add: trunc_def)
qed

lemma commit_unfold:
  "Slider_inv lo hi nm upd s \<Longrightarrow>
     Slider_event rt (Commit t) s =
       Slider_on_editbox_changed rt (s\<lparr>editbox := (editbox s)\<lparr>le_text := t\<rparr>\<rparr>)"
  by (simp add: Slider_inv_def Let_def)

lemma commit_text_inv:
  "Slider_inv lo hi nm upd s \<Longrightarrow> Slider_inv lo hi nm upd (s\<lparr>editbox := (editbox s)\<lparr>le_text := t\<rparr>\<rparr>)"
  by (simp add: Slider_inv_def)

lemma commit_accepted:
  assumes inv: "Slider_inv lo hi nm upd s" and "lo < hi"
    and "float_of rt t = Some v" and "lo \<le> v" and "v \<le> hi"
  shows "Slider_event rt (Commit t) s =
           Inr (Slider_good_editbox_input
                  (Slider_slider_setValue rt (sip_int (PyFloat ((v - lo) / ((hi - lo) / 1000))))
                     (s\<lparr>editbox := (editbox s)\<lparr>le_text := t\<rparr>\<rparr>)))"
proof -
  let ?s1 = "s\<lparr>editbox := (editbox s)\<lparr>le_text := t\<rparr>\<rparr>"
  have f: "priv_low ?s1 = lo" "priv_high ?s1 = hi" "priv_scale ?s1 = (hi - lo) / 1000"
      "float_of rt (le_text (editbox ?s1)) = Some v"
    using inv assms(3) by (simp_all add: Slider_inv_def)
  have nz: "(hi - lo) / 1000 \<noteq> 0" using assms(2) by simp
  have "Slider_on_editbox_changed rt ?s1 =
          Inr (Slider_good_editbox_input
                 (Slider_slider_setValue rt (sip_int (PyFloat ((v - lo) / ((hi - lo) / 1000)))) ?s1))"
    unfolding Slider_on_editbox_changed_def f Let_def option.case
    using nz assms(4,5) by (simp only: simp_thms if_False)
  then show ?thesis by (simp only: commit_unfold[OF inv])
qed


section \<open>Slider: committing a text within the range\<close>





section \<open>Slider: the value of a position\<close>





section \<open>Slider: committing a text that is refused\<close>

text \<open>
  C5. For every slider, in any state the user can bring it to: committing a text that
  does not read as a float, or reads as a float below \<open>lo\<close> or above \<open>hi\<close>, returns, leaves
  the position control (and so \<^verbatim>\<open>val\<close>) as it was, calls no callback, and gives the text
  box the red background.
\<close>

theorem Slider_commit_invalid:
  assumes init: "Slider_init rt nm lo hi v0 pt w ori upd = Inr s0"
    and run: "Slider_run rt es s0 = Inr s"
    and bad: "float_of rt t = None \<or> (\<exists>v. float_of rt t = Some v \<and> (v < lo \<or> hi < v))"
  shows "\<exists>s'. Slider_event rt (Commit t) s = Inr s' \<and>
           slider s' = slider s \<and> Slider_val s' = Slider_val s \<and> calls s' = calls s \<and>
           le_styleSheet (editbox s') = ''background-color: rgb(255, 200, 200)''"
proof -
  let ?s1 = "s\<lparr>editbox := (editbox s)\<lparr>le_text := t\<rparr>\<rparr>"
  have inv: "Slider_inv lo hi nm upd s" using init run by (rule Slider_reach_inv)
  have f: "priv_low ?s1 = lo" "priv_high ?s1 = hi" "le_text (editbox ?s1) = t"
    using inv by (simp_all add: Slider_inv_def)
  have "Slider_on_editbox_changed rt ?s1 = Inr (Slider_bad_editbox_input ?s1)"
    unfolding Slider_on_editbox_changed_def f using bad by (auto split: option.splits)
  then have "Slider_event rt (Commit t) s = Inr (Slider_bad_editbox_input ?s1)"
    by (simp only: commit_unfold[OF inv])
  then show ?thesis by (simp add: Slider_bad_editbox_input_def Slider_val_def)
qed

text \<open>
  The theorem at the slider \<^verbatim>\<open>sigma\<close> over \<open>[0, 10]\<close>, for a text that is no number and
  for a number above the range.
\<close>

theorem Slider_commit_invalid_witness:
  "\<not> isl sigma_move \<and>
   float_of decimal_rt ''abc'' = None \<and>
   float_of decimal_rt ''12.5'' = Some 12.5 \<and>
   \<not> isl (Slider_event decimal_rt (Commit ''abc'') (projr sigma_move)) \<and>
   q_value (slider (projr (Slider_event decimal_rt (Commit ''abc'') (projr sigma_move)))) = 500 \<and>
   calls (projr (Slider_event decimal_rt (Commit ''abc'') (projr sigma_move))) = [] \<and>
   le_styleSheet (editbox (projr (Slider_event decimal_rt (Commit ''abc'') (projr sigma_move))))
     = ''background-color: rgb(255, 200, 200)'' \<and>
   \<not> isl (Slider_event decimal_rt (Commit ''12.5'') (projr sigma_move)) \<and>
   q_value (slider (projr (Slider_event decimal_rt (Commit ''12.5'') (projr sigma_move)))) = 500 \<and>
   calls (projr (Slider_event decimal_rt (Commit ''12.5'') (projr sigma_move))) = [] \<and>
   le_styleSheet (editbox (projr (Slider_event decimal_rt (Commit ''12.5'') (projr sigma_move))))
     = ''background-color: rgb(255, 200, 200)''"
proof -
  have i: "Slider_init decimal_rt ''sigma'' 0 10 None ''kwarg'' 60 ''horizontal'' ''move''
             = Inr (projr sigma_move)"
    using sigma_move_ok by (simp add: sigma_move_def)
  have r: "Slider_run decimal_rt [] (projr sigma_move) = Inr (projr sigma_move)" by simp
  have p1: "float_of decimal_rt ''abc'' = None"
    by (simp add: decimal_rt_def decimal_float_def digit_of_def)
  have p2: "float_of decimal_rt ''12.5'' = Some 12.5"
    by (simp add: decimal_rt_def decimal_float_def digit_of_def)
  have h1: "float_of decimal_rt ''abc'' = None \<or>
      (\<exists>v. float_of decimal_rt ''abc'' = Some v \<and> (v < 0 \<or> 10 < v))" using p1 by simp
  have h2: "float_of decimal_rt ''12.5'' = None \<or>
      (\<exists>v. float_of decimal_rt ''12.5'' = Some v \<and> (v < 0 \<or> 10 < v))"
    by (rule disjI2, rule exI[of _ "12.5"]) (simp add: p2)
  show ?thesis
    using sigma_move_ok p1 p2 sigma_move_start
      Slider_commit_invalid[OF i r h1] Slider_commit_invalid[OF i r h2]
    by auto
qed


section \<open>Slider: from the value back to the position\<close>


text \<open>
  A text that reads as a number of the range less than one unit of the scale away from
  \<^verbatim>\<open>val\<close> moves the position by at most one.
\<close>

lemma trunc_near_step:
  assumes "0 \<le> x" and "real_of_int k - 1 < x" and "x < real_of_int k + 1"
  shows "\<bar>trunc x - k\<bar> \<le> 1"
proof -
  have "\<lfloor>x\<rfloor> \<le> k" using assms(3) by (simp add: floor_le_iff)
  moreover have "k - 1 \<le> \<lfloor>x\<rfloor>" using assms(2) by (simp add: le_floor_iff)
  ultimately show ?thesis using assms(1) by (simp add: trunc_def)
qed

lemma near_quotient:
  fixes sc d k :: real
  assumes "0 < sc" and "\<bar>d - k * sc\<bar> < sc"
  shows "k - 1 < d / sc \<and> d / sc < k + 1"
  using assms by (auto simp: field_simps abs_less_iff)

lemma Slider_round_trip_near:
  assumes inv: "Slider_inv lo hi nm upd s" and "lo < hi"
    and "float_of rt t = Some v" and "lo \<le> v" and "v \<le> hi"
    and near: "\<bar>v - Slider_val s\<bar> < (hi - lo) / 1000"
  shows "\<exists>s'. Slider_event rt (Commit t) s = Inr s' \<and>
           \<bar>q_value (slider s') - q_value (slider s)\<bar> \<le> 1 \<and>
           le_styleSheet (editbox s') = ''background-color: rgb(255, 255, 255)''"
proof -
  let ?sc = "(hi - lo) / 1000"
  let ?k = "q_value (slider s)"
  let ?x = "(v - lo) / ?sc"
  let ?s1 = "s\<lparr>editbox := (editbox s)\<lparr>le_text := t\<rparr>\<rparr>"
  have sc: "0 < ?sc" using assms(2) by simp
  have val: "Slider_val s = real_of_int ?k * ?sc + lo"
    using Slider_val_inv[OF inv] by simp
  have x0: "0 \<le> ?x" using assms(4) sc by simp
  have "v - Slider_val s = (v - lo) - real_of_int ?k * ?sc"
    unfolding val by (simp only: diff_diff_eq add.commute)
  then have d: "\<bar>(v - lo) - real_of_int ?k * ?sc\<bar> < ?sc" using near by (simp only:)
  note q = near_quotient[OF sc d]
  have dn: "real_of_int ?k - 1 < ?x" and up: "?x < real_of_int ?k + 1"
    using q by blast+
  have n: "\<bar>trunc ?x - ?k\<bar> \<le> 1" using x0 dn up by (rule trunc_near_step)
  have ev: "Slider_event rt (Commit t) s =
      Inr (Slider_good_editbox_input (Slider_slider_setValue rt (sip_int (PyFloat ?x)) ?s1))"
    using inv assms(2-5) by (rule commit_accepted)
  have b: "qBound 0 (trunc ?x) 1000 = trunc ?x"
    using trunc_step_bounds[OF assms(2,4,5)] by (simp add: qBound_id)
  have st: "q_value (slider (Slider_slider_setValue rt (trunc ?x) ?s1)) = trunc ?x"
    using slider_setValue_step[OF commit_text_inv[OF inv, of t], of rt "trunc ?x"] b by simp
  show ?thesis unfolding ev using st n by (simp add: Slider_good_editbox_input_def)
qed




section \<open>Slider: construction\<close>



lemma format_orientation:
  "py_format (''Unexpected value %s for 'orientation'' @ [CHR 0x27]) a
     = ''Unexpected value '' @ a @ '' for 'orientation'' @ [CHR 0x27]"
  by simp

lemma format_update_on:
  "py_format (''Unexpected value %s for 'update_on'' @ [CHR 0x27]) a
     = ''Unexpected value '' @ a @ '' for 'update_on'' @ [CHR 0x27]"
  by simp

text \<open>
  C8. Constructing a slider with an orientation other than \<^verbatim>\<open>'vertical'\<close> and
  \<^verbatim>\<open>'horizontal'\<close> raises \<^verbatim>\<open>ValueError\<close> with a message that holds the orientation given;
  with an accepted orientation and an update trigger other than \<^verbatim>\<open>'move'\<close> and \<^verbatim>\<open>'release'\<close>
  it raises \<^verbatim>\<open>ValueError\<close> with a message that holds the trigger given. With such an
  update trigger the construction raises whatever the orientation is.
\<close>

theorem Slider_init_configuration_errors:
  "(ori \<noteq> ''vertical'' \<and> ori \<noteq> ''horizontal'' \<longrightarrow>
      Slider_init rt nm lo hi v0 pt w ori upd
        = Inl (ValueError (''Unexpected value '' @ ori @ '' for 'orientation'' @ [CHR 0x27]))) \<and>
   ((ori = ''vertical'' \<or> ori = ''horizontal'') \<and> upd \<noteq> ''move'' \<and> upd \<noteq> ''release'' \<longrightarrow>
      Slider_init rt nm lo hi v0 pt w ori upd
        = Inl (ValueError (''Unexpected value '' @ upd @ '' for 'update_on'' @ [CHR 0x27]))) \<and>
   (upd \<noteq> ''move'' \<and> upd \<noteq> ''release'' \<longrightarrow> isl (Slider_init rt nm lo hi v0 pt w ori upd))"
proof (intro conjI impI)
  assume 0: "ori \<noteq> ''vertical'' \<and> ori \<noteq> ''horizontal''"
  show "Slider_init rt nm lo hi v0 pt w ori upd
        = Inl (ValueError (''Unexpected value '' @ ori @ '' for 'orientation'' @ [CHR 0x27]))"
    unfolding Slider_init_def Let_def format_orientation if_P[OF 0] ..
next
  assume a: "(ori = ''vertical'' \<or> ori = ''horizontal'') \<and> upd \<noteq> ''move'' \<and> upd \<noteq> ''release''"
  then have 1: "\<not> (ori \<noteq> ''vertical'' \<and> ori \<noteq> ''horizontal'')" by blast
  from a have 2: "upd \<noteq> ''move'' \<and> upd \<noteq> ''release''" by blast
  show "Slider_init rt nm lo hi v0 pt w ori upd
        = Inl (ValueError (''Unexpected value '' @ upd @ '' for 'update_on'' @ [CHR 0x27]))"
    unfolding Slider_init_def Let_def format_update_on if_not_P[OF 1] if_P[OF 2] ..
next
  assume "upd \<noteq> ''move'' \<and> upd \<noteq> ''release''"
  then show "isl (Slider_init rt nm lo hi v0 pt w ori upd)"
    by (simp add: Slider_init_def Let_def)
qed

text \<open>
  The theorem at the orientation \<^verbatim>\<open>diagonal\<close>, and at the update trigger \<^verbatim>\<open>never\<close>.
\<close>

theorem Slider_init_configuration_errors_witness:
  "Slider_init decimal_rt ''sigma'' 0 10 None ''kwarg'' 60 ''diagonal'' ''move''
     = Inl (ValueError (''Unexpected value diagonal for 'orientation'' @ [CHR 0x27])) \<and>
   Slider_init decimal_rt ''sigma'' 0 10 None ''kwarg'' 60 ''vertical'' ''never''
     = Inl (ValueError (''Unexpected value never for 'update_on'' @ [CHR 0x27]))"
  using Slider_init_configuration_errors[of "''diagonal''" decimal_rt "''sigma''" 0 10 None "''kwarg''" 60 "''move''"]
    Slider_init_configuration_errors[of "''vertical''" decimal_rt "''sigma''" 0 10 None "''kwarg''" 60 "''never''"]
  by simp





section \<open>Slider: the division of the commit handler\<close>



end
